theory Spec2Isabelle
  imports Main
begin

section \<open>JavaScript values and strings\<close>

text \<open>
  Strings are lists of 8-bit characters, read as the UTF-16 code units below 256 (every
  literal of the source is ASCII). \<open>String.prototype.trim\<close> removes the ECMAScript white
  space and line terminators from both ends; below 256 these are TAB, LF, VT, FF, CR,
  SPACE and NBSP.
\<close>

definition is_js_space :: "char \<Rightarrow> bool" where
  "is_js_space c = ((of_char c :: nat) \<in> {9, 10, 11, 12, 13, 32, 160})"

definition js_trim :: "string \<Rightarrow> string" where
  "js_trim t = rev (dropWhile is_js_space (rev (dropWhile is_js_space t)))"

text \<open>
  A value read out of parsed JSON (or handed to a function whose TypeScript type is erased
  at run time). The code only ever tests such a value for truthiness, compares its type
  with \<open>'string'\<close> and converts it to a string, so a value that is neither
  \<open>undefined\<close>, \<open>null\<close> nor a string is given by its truthiness and its string conversion.
\<close>

datatype jsval = JUndefined | JNull | JStr string | JOther bool string

fun truthy :: "jsval \<Rightarrow> bool" where
  "truthy JUndefined = False"
| "truthy JNull = False"
| "truthy (JStr t) = (t \<noteq> [])"
| "truthy (JOther b r) = b"

fun js_to_string :: "jsval \<Rightarrow> string" where
  "js_to_string JUndefined = ''undefined''"
| "js_to_string JNull = ''null''"
| "js_to_string (JStr t) = t"
| "js_to_string (JOther b r) = r"

text \<open>\<open>a || b\<close>\<close>

definition js_or :: "jsval \<Rightarrow> jsval \<Rightarrow> jsval" where
  "js_or a b = (if truthy a then a else b)"

text \<open>The decimal rendering of a non-negative integer, as a template literal prints an HTTP status.\<close>

definition digit_char :: "nat \<Rightarrow> char" where
  "digit_char d = char_of (48 + d)"

function show_nat :: "nat \<Rightarrow> string" where
  "show_nat n = (if n < 10 then [digit_char n] else show_nat (n div 10) @ [digit_char (n mod 10)])"
  by pat_completeness auto
termination
  by (relation "measure id") auto

declare show_nat.simps [simp del]

text \<open>
  The result of \<open>JSON.parse\<close> as far as the code looks into it: \<open>null\<close> (reading a property
  of it throws a TypeError), or a value with properties (a primitive or an array has none
  of the properties the code reads).
\<close>

datatype json_body = JsonNull | JsonObject "string \<rightharpoonup> jsval"

definition field :: "(string \<rightharpoonup> jsval) \<Rightarrow> string \<Rightarrow> jsval" where
  "field m k = (case m k of None \<Rightarrow> JUndefined | Some v \<Rightarrow> v)"

text \<open>A thrown value: an \<open>Error\<close> object with its message, or anything else.\<close>

datatype thrown = ErrorObj string | NonError

text \<open>
  The message of the TypeError that reading property \<open>k\<close> of \<open>null\<close> or \<open>undefined\<close> throws
  (V8's wording; \<open>base\<close> is \<open>null\<close> or \<open>undefined\<close>).
\<close>

definition cannot_read :: "string \<Rightarrow> string \<Rightarrow> string" where
  "cannot_read base k =
     ''Cannot read properties of '' @ base @ '' (reading '' @ [CHR 0x27] @ k @ [CHR 0x27] @ '')''"

section \<open>The component and the services it drives\<close>

text \<open>
  \<open>window.speechSynthesis\<close>: the \<open>speaking\<close> attribute and the queue of utterances
  (\<open>speak\<close> appends, \<open>cancel\<close> empties the queue and stops the utterance being spoken).
\<close>

record synth_engine =
  speaking :: bool
  queue :: "string list"

text \<open>
  The state of \<open>App\<close>: its \<open>useState\<close> cells, the \<open>lastProcessedTranscript\<close> ref, the values
  of the \<open>useSpeechRecognition\<close> hook, the synthesis engine (absent in a browser without
  it) and the number of \<open>fetch\<close> calls whose promise has not settled yet.

  The repository holds two revisions of \<open>App.tsx\<close>. The model follows the later one, which
  keeps the last reply in \<open>aiResponseText\<close>; the earlier one is the same code without that
  cell and without the three \<open>setAiResponseText\<close> calls.
\<close>

record app =
  textToSpeak :: string
  isSynthesizing :: bool
  isAiResponding :: bool
  aiResponseText :: string
  lastProcessedTranscript :: "string option"
  transcript :: string
  finalTranscript :: string
  listening :: bool
  isMicrophoneAvailable :: bool
  synth :: "synth_engine option"
  inFlight :: nat

datatype level = LogLevel | WarnLevel | ErrorLevel

text \<open>What a handler does to the outside, in order.\<close>

datatype effect =
    Console level string
  | Fetch string string "(string \<times> string) list" "(string \<times> jsval) list"
  | SynthCancel
  | SynthSpeak string
  | RecognitionStart bool string
  | RecognitionStop
  | Uncaught thrown

definition initial_app :: "bool \<Rightarrow> synth_engine option \<Rightarrow> app" where
  "initial_app mic engine =
     \<lparr>textToSpeak = [], isSynthesizing = False, isAiResponding = False, aiResponseText = [],
      lastProcessedTranscript = None, transcript = [], finalTranscript = [], listening = False,
      isMicrophoneAvailable = mic, synth = engine, inFlight = 0\<rparr>"

subsection \<open>speak\<close>

definition synth_cancel :: "synth_engine \<Rightarrow> synth_engine" where
  "synth_cancel e = e\<lparr>speaking := False, queue := []\<rparr>"

definition synth_speak :: "string \<Rightarrow> synth_engine \<Rightarrow> synth_engine" where
  "synth_speak t e = e\<lparr>queue := queue e @ [t]\<rparr>"

definition speak :: "jsval \<Rightarrow> app \<Rightarrow> app \<times> effect list" where
  "speak text s =
     (case synth s of
        None \<Rightarrow> (s, [Console WarnLevel ''Speech synthesis not available or text is empty.''])
      | Some e \<Rightarrow>
          if \<not> truthy text
          then (s, [Console WarnLevel ''Speech synthesis not available or text is empty.''])
          else
            let (e1, fx1) =
                  (if speaking e
                   then (synth_cancel e,
                         [Console LogLevel ''Already speaking, cancelling previous utterance.'', SynthCancel])
                   else (e, []));
                t = js_to_string text
            in (s\<lparr>synth := Some (synth_speak t e1)\<rparr>,
                fx1 @ [Console LogLevel (''Attempting to speak: '' @ t), SynthSpeak t]))"

text \<open>The callbacks \<open>speak\<close> puts on the utterance, with the engine's side of each event.\<close>

definition utterance_onstart :: "app \<Rightarrow> app \<times> effect list" where
  "utterance_onstart s =
     (s\<lparr>isSynthesizing := True, synth := map_option (\<lambda>e. e\<lparr>speaking := True\<rparr>) (synth s)\<rparr>, [])"

definition utterance_onend :: "app \<Rightarrow> app \<times> effect list" where
  "utterance_onend s =
     (s\<lparr>isSynthesizing := False,
        synth := map_option (\<lambda>e. e\<lparr>speaking := False, queue := tl (queue e)\<rparr>) (synth s)\<rparr>, [])"

definition utterance_onerror :: "string \<Rightarrow> app \<Rightarrow> app \<times> effect list" where
  "utterance_onerror detail s =
     (s\<lparr>isSynthesizing := False,
        synth := map_option (\<lambda>e. e\<lparr>speaking := False, queue := tl (queue e)\<rparr>) (synth s)\<rparr>,
      [Console ErrorLevel (''SpeechSynthesis Error: '' @ detail)])"

subsection \<open>getAiResponse\<close>

text \<open>
  What the awaited \<open>fetch\<close> comes back with: a rejection, or a response with its status,
  status text and the result of \<open>response.json()\<close> (a rejection when the body is not JSON).
\<close>

datatype fetch_outcome =
    Rejected thrown
  | Response nat string "thrown + json_body"

definition response_ok :: "nat \<Rightarrow> bool" where
  "response_ok st = (200 \<le> st \<and> st \<le> 299)"

text \<open>The function up to its \<open>await fetch(...)\<close>.\<close>

definition getAiResponse :: "string \<Rightarrow> app \<Rightarrow> app \<times> effect list" where
  "getAiResponse text s =
     (if text = [] \<or> js_trim text = [] then (s, [])
      else if lastProcessedTranscript s = Some text
      then (s, [Console LogLevel (''Skipping duplicate final transcript: '' @ text)])
      else (s\<lparr>lastProcessedTranscript := Some text, isAiResponding := True,
               inFlight := Suc (inFlight s)\<rparr>,
            [Console LogLevel (''Sending to AI function: '' @ text),
             Fetch ''/.netlify/functions/getAiResponse'' ''POST''
               [(''Content-Type'', ''application/json'')] [(''transcript'', JStr text)]]))"

text \<open>The body of the \<open>try\<close> once the promise has settled: the value thrown, or the state and effects.\<close>

definition getAiResponse_try :: "fetch_outcome \<Rightarrow> app \<Rightarrow> thrown + app \<times> effect list" where
  "getAiResponse_try outcome s =
     (case outcome of
        Rejected x \<Rightarrow> Inl x
      | Response st stText parsed \<Rightarrow>
          if \<not> response_ok st
          then
            let errorBody =
                  (case parsed of
                     Inl x \<Rightarrow> JsonObject [''error'' \<mapsto> JStr ''Failed to parse error response from function.'']
                   | Inr b \<Rightarrow> b);
                err = (case errorBody of JsonNull \<Rightarrow> JUndefined | JsonObject m \<Rightarrow> field m ''error'')
            in Inl (ErrorObj (''Function Error ('' @ show_nat st @ ''): ''
                              @ js_to_string (js_or err (JStr stText))))
          else
            (case parsed of
               Inl x \<Rightarrow> Inl x
             | Inr JsonNull \<Rightarrow> Inl (ErrorObj (cannot_read ''null'' ''response''))
             | Inr (JsonObject m) \<Rightarrow>
                 let r = field m ''response'' in
                 if truthy r
                 then
                   let (s1, fx) = speak r (s\<lparr>aiResponseText := js_to_string r\<rparr>)
                   in Inr (s1, Console LogLevel (''AI Response received: '' @ js_to_string r) # fx)
                 else Inl (ErrorObj ''Received success status but no valid response field from function.'')))"

definition getAiResponse_catch :: "thrown \<Rightarrow> app \<Rightarrow> app \<times> effect list" where
  "getAiResponse_catch x s =
     (case x of
        ErrorObj msg \<Rightarrow>
          let (s1, fx) = speak (JStr (''Sorry, I encountered an error: '' @ msg)) (s\<lparr>aiResponseText := []\<rparr>)
          in (s1, Console ErrorLevel (''Error fetching AI response: '' @ msg) # fx)
      | NonError \<Rightarrow>
          let (s1, fx) = speak (JStr ''Sorry, I encountered an unknown error trying to respond.'')
                           (s\<lparr>aiResponseText := []\<rparr>)
          in (s1, [Console ErrorLevel ''Error fetching AI response:'',
                   Console LogLevel ''Caught a non-Error value in getAiResponse:''] @ fx))"

text \<open>The rest of the function, run when the promise settles: \<open>try\<close>, \<open>catch\<close>, \<open>finally\<close>.\<close>

definition getAiResponse_settled :: "fetch_outcome \<Rightarrow> app \<Rightarrow> app \<times> effect list" where
  "getAiResponse_settled outcome s =
     (let (s1, fx) = (case getAiResponse_try outcome s of
                        Inl x \<Rightarrow> getAiResponse_catch x s
                      | Inr r \<Rightarrow> r)
      in (s1\<lparr>isAiResponding := False, inFlight := inFlight s1 - 1\<rparr>, fx))"

text \<open>The effect on \<open>[finalTranscript, listening]\<close>.\<close>

definition useEffect_finalTranscript :: "app \<Rightarrow> app \<times> effect list" where
  "useEffect_finalTranscript s =
     (if \<not> listening s \<and> finalTranscript s \<noteq> [] then getAiResponse (finalTranscript s) s
      else (s, []))"

subsection \<open>The action handlers\<close>

definition resetTranscript :: "app \<Rightarrow> app" where
  "resetTranscript s = s\<lparr>transcript := [], finalTranscript := []\<rparr>"

definition handleStartListening :: "app \<Rightarrow> app \<times> effect list" where
  "handleStartListening s =
     (let s1 = (resetTranscript s)\<lparr>lastProcessedTranscript := None, aiResponseText := []\<rparr>
      in if \<not> isMicrophoneAvailable s1
         then speak (JStr ''Cannot start listening, microphone is not available.'') s1
         else
           (case synth s1 of
              None \<Rightarrow> (s1, [Uncaught (ErrorObj (cannot_read ''undefined'' ''speaking''))])
            | Some e \<Rightarrow>
                let (e1, fx1) = (if speaking e then (synth_cancel e, [SynthCancel]) else (e, []))
                in (s1\<lparr>synth := Some e1\<rparr>, fx1 @ [RecognitionStart False ''en-US''])))"

definition handleStopListening :: "app \<Rightarrow> app \<times> effect list" where
  "handleStopListening s = (s, [RecognitionStop])"

definition handleReset :: "app \<Rightarrow> app \<times> effect list" where
  "handleReset s =
     speak (JStr ''Transcript reset'')
       ((resetTranscript s)\<lparr>lastProcessedTranscript := None, aiResponseText := []\<rparr>)"

definition handleTextToSpeakChange :: "string \<Rightarrow> app \<Rightarrow> app \<times> effect list" where
  "handleTextToSpeakChange v s = (s\<lparr>textToSpeak := v\<rparr>, [])"

definition handleSpeakInput :: "app \<Rightarrow> app \<times> effect list" where
  "handleSpeakInput s = speak (JStr (textToSpeak s)) s"

subsection \<open>Events\<close>

text \<open>
  Everything the component reacts to: a new set of values from the recognition hook
  (listening flag, transcript, final transcript, microphone flag), the settling of a
  pending \<open>fetch\<close>, the buttons and the input field with their \<open>disabled\<close> conditions, the
  two voice commands, and the events of the utterance being spoken.
\<close>

datatype event =
    HookUpdate bool string string bool
  | FetchSettled fetch_outcome
  | ClickStartListening
  | ClickStopListening
  | ClickReset
  | ClickSpeak
  | ChangeText string
  | CommandStopListening
  | CommandReset
  | UtteranceStart
  | UtteranceEnd
  | UtteranceError string

fun step :: "event \<Rightarrow> app \<Rightarrow> app \<times> effect list" where
  "step (HookUpdate l t f m) s =
     (let s1 = s\<lparr>listening := l, transcript := t, finalTranscript := f, isMicrophoneAvailable := m\<rparr>
      in if f \<noteq> finalTranscript s \<or> l \<noteq> listening s then useEffect_finalTranscript s1
         else (s1, []))"
| "step (FetchSettled outcome) s =
     (if inFlight s = 0 then (s, []) else getAiResponse_settled outcome s)"
| "step ClickStartListening s = (if listening s then (s, []) else handleStartListening s)"
| "step ClickStopListening s = (if \<not> listening s then (s, []) else handleStopListening s)"
| "step ClickReset s = handleReset s"
| "step ClickSpeak s =
     (if js_trim (textToSpeak s) = [] \<or> isSynthesizing s then (s, []) else handleSpeakInput s)"
| "step (ChangeText v) s = (if isSynthesizing s then (s, []) else handleTextToSpeakChange v s)"
| "step CommandStopListening s = handleStopListening s"
| "step CommandReset s = handleReset s"
| "step UtteranceStart s = utterance_onstart s"
| "step UtteranceEnd s = utterance_onend s"
| "step (UtteranceError detail) s = utterance_onerror detail s"

fun run :: "event list \<Rightarrow> app \<Rightarrow> app \<times> effect list" where
  "run [] s = (s, [])"
| "run (e # es) s = (let (s1, fx1) = step e s; (s2, fx2) = run es s1 in (s2, fx1 @ fx2))"

text \<open>The request bodies and the texts handed to the engine, among the effects.\<close>

fun requests :: "effect list \<Rightarrow> (string \<times> jsval) list list" where
  "requests [] = []"
| "requests (Fetch url method hdrs b # fx) = b # requests fx"
| "requests (x # fx) = requests fx"

fun spoken :: "effect list \<Rightarrow> string list" where
  "spoken [] = []"
| "spoken (SynthSpeak t # fx) = t # spoken fx"
| "spoken (x # fx) = spoken fx"

text \<open>An event that hands a final transcript to \<open>getAiResponse\<close>, and one that clears the ref.\<close>

fun finalizes :: "event \<Rightarrow> bool" where
  "finalizes (HookUpdate l t f m) = (\<not> l \<and> f \<noteq> [])"
| "finalizes e = False"

fun restarts :: "event \<Rightarrow> bool" where
  "restarts ClickStartListening = True"
| "restarts ClickReset = True"
| "restarts CommandReset = True"
| "restarts e = False"

section \<open>The backend function\<close>

text \<open>
  The handler as a function of what it reads: whether the API key is configured, the
  event, and what the completion call comes back with (consulted only when the handler
  gets that far). Its console output is left out, and so is the system message it
  sends along (place, date and time), on which nothing it returns depends.

  \<open>event.body\<close> as the handler reads it: absent or empty, not JSON (with the parser's
  message), JSON \<open>null\<close>, or a value with properties.
\<close>

datatype request_body = BodyMissing | BodyMalformed string | BodyNull | BodyObject "string \<rightharpoonup> jsval"

record handler_event =
  httpMethod :: string
  event_body :: request_body

text \<open>
  What \<open>openai.chat.completions.create\<close> comes back with: a thrown value, or the list
  \<open>choices\<close>, each with its \<open>message.content\<close> when there is one. A thrown value either
  carries a \<open>response\<close> (with \<open>response.data?.error?.message\<close> and its own message), or is a
  plain \<open>Error\<close>, or is neither.
\<close>

datatype api_thrown = ApiError jsval string | PlainError string | OtherThrown

datatype completion_result = Threw api_thrown | Completion "string option list"

record http_response =
  statusCode :: nat
  body :: "(string \<times> jsval) list"
  headers :: "(string \<times> string) list"

text \<open>Step 2 of the handler: the transcript, or the message of what was thrown.\<close>

definition read_transcript :: "request_body \<Rightarrow> string + string" where
  "read_transcript b =
     (case b of
        BodyMissing \<Rightarrow> Inl ''Request body is missing.''
      | BodyMalformed msg \<Rightarrow> Inl msg
      | BodyNull \<Rightarrow> Inl (cannot_read ''null'' ''transcript'')
      | BodyObject m \<Rightarrow>
          (case field m ''transcript'' of
             JStr t \<Rightarrow>
               if t = [] \<or> js_trim t = [] then Inl ''Transcript is missing or invalid in request body.''
               else Inr t
           | v \<Rightarrow> Inl ''Transcript is missing or invalid in request body.''))"

text \<open>\<open>completion.choices[0]?.message?.content?.trim()\<close>, \<open>None\<close> for \<open>undefined\<close>.\<close>

definition first_choice_text :: "string option list \<Rightarrow> string option" where
  "first_choice_text choices = (case choices of [] \<Rightarrow> None | c # cs \<Rightarrow> map_option js_trim c)"

text \<open>The \<open>catch\<close> of step 3.\<close>

definition error_response :: "api_thrown \<Rightarrow> http_response" where
  "error_response x =
     (let errorMessage =
            (case x of
               ApiError apiMsg msg \<Rightarrow> ''OpenAI API Error: '' @ js_to_string (js_or apiMsg (JStr msg))
             | PlainError msg \<Rightarrow> msg
             | OtherThrown \<Rightarrow> ''Failed to get response from AI.'')
      in \<lparr>statusCode = 500, body = [(''error'', JStr errorMessage)], headers = []\<rparr>)"

definition handler :: "bool \<Rightarrow> handler_event \<Rightarrow> completion_result \<Rightarrow> http_response" where
  "handler openai_configured ev completion =
     (if \<not> openai_configured
      then \<lparr>statusCode = 500, body = [(''error'', JStr ''OpenAI API key not configured.'')], headers = []\<rparr>
      else if httpMethod ev \<noteq> ''POST''
      then \<lparr>statusCode = 405, body = [(''error'', JStr ''Please use the POST method.'')],
            headers = [(''Allow'', ''POST'')]\<rparr>
      else
        (case read_transcript (event_body ev) of
           Inl msg \<Rightarrow>
             \<lparr>statusCode = 400,
              body = [(''error'', JStr (''Invalid request body. Expecting JSON with a ''
                                        @ [CHR 0x27] @ ''transcript'' @ [CHR 0x27] @ '' field.'')),
                      (''details'', JStr msg)],
              headers = []\<rparr>
         | Inr t \<Rightarrow>
             (case completion of
                Threw x \<Rightarrow> error_response x
              | Completion choices \<Rightarrow>
                  (case first_choice_text choices of
                     None \<Rightarrow> error_response (PlainError ''Received an empty response from OpenAI.'')
                   | Some aiResponse \<Rightarrow>
                       if aiResponse = []
                       then error_response (PlainError ''Received an empty response from OpenAI.'')
                       else \<lparr>statusCode = 200, body = [(''response'', JStr aiResponse)],
                             headers = [(''Content-Type'', ''application/json'')]\<rparr>))))"

text \<open>The \<open>startListening\<close> calls among the effects, each with its \<open>continuous\<close> flag and language.\<close>

fun recognition_starts :: "effect list \<Rightarrow> (bool \<times> string) list" where
  "recognition_starts [] = []"
| "recognition_starts (RecognitionStart c l # fx) = (c, l) # recognition_starts fx"
| "recognition_starts (x # fx) = recognition_starts fx"

text \<open>An event that settles a pending \<open>fetch\<close>.\<close>

fun settles :: "event \<Rightarrow> bool" where
  "settles (FetchSettled outcome) = True"
| "settles e = False"

definition has_synth :: "app \<Rightarrow> bool" where
  "has_synth s = (synth s \<noteq> None)"

subsection \<open>Sample states and requests\<close>

text \<open>A freshly mounted component in a browser with a silent engine.\<close>

definition quiet_app :: app where
  "quiet_app = initial_app True (Some \<lparr>speaking = False, queue = []\<rparr>)"

text \<open>The same while a listening session is running.\<close>

definition listening_app :: app where
  "listening_app = quiet_app\<lparr>listening := True\<rparr>"

text \<open>After a turn, with the microphone gone.\<close>

definition muted_app :: app where
  "muted_app = quiet_app\<lparr>isMicrophoneAvailable := False, lastProcessedTranscript := Some ''hi'',
                  aiResponseText := ''hello'', transcript := ''hi'', finalTranscript := ''hi''\<rparr>"

text \<open>Waiting for the backend while an earlier reply is still being spoken.\<close>

definition busy_app :: app where
  "busy_app = quiet_app\<lparr>lastProcessedTranscript := Some ''what time is it'', isAiResponding := True,
                 inFlight := 1, synth := Some \<lparr>speaking = True, queue = [''old reply'']\<rparr>\<rparr>"

definition post_event :: handler_event where
  "post_event = \<lparr>httpMethod = ''POST'',
                  event_body = BodyObject [''transcript'' \<mapsto> JStr ''what time is it'']\<rparr>"

section \<open>Properties\<close>

subsection \<open>Auxiliary facts\<close>

lemma js_trim_Nil [simp]: "js_trim [] = []"
  by (simp add: js_trim_def)

lemma requests_append: "requests (a @ b) = requests a @ requests b"
  by (induction a rule: requests.induct) simp_all

lemma spoken_append: "spoken (a @ b) = spoken a @ spoken b"
  by (induction a rule: spoken.induct) simp_all

lemma speak_memo: "lastProcessedTranscript (fst (speak v s)) = lastProcessedTranscript s"
  by (auto simp: speak_def Let_def split: option.splits)

lemma speak_requests: "requests (snd (speak v s)) = []"
  by (auto simp: speak_def Let_def split: option.splits)

lemma speak_inFlight: "inFlight (fst (speak v s)) = inFlight s"
  by (auto simp: speak_def Let_def split: option.splits)

lemma speak_spoken:
  "synth s = Some e \<Longrightarrow> truthy v \<Longrightarrow> spoken (snd (speak v s)) = [js_to_string v]"
  by (auto simp: speak_def Let_def split: option.splits)

lemma catch_memo:
  "lastProcessedTranscript (fst (getAiResponse_catch x s)) = lastProcessedTranscript s"
  by (cases x) (simp_all add: getAiResponse_catch_def split_beta speak_memo)

lemma catch_requests: "requests (snd (getAiResponse_catch x s)) = []"
  by (cases x) (simp_all add: getAiResponse_catch_def split_beta speak_requests)

lemma catch_inFlight: "inFlight (fst (getAiResponse_catch x s)) = inFlight s"
  by (cases x) (simp_all add: getAiResponse_catch_def split_beta speak_inFlight)

lemma try_memo:
  "getAiResponse_try outcome s = Inr r \<Longrightarrow> lastProcessedTranscript (fst r) = lastProcessedTranscript s"
  by (auto simp: getAiResponse_try_def Let_def split_beta speak_memo
      split: fetch_outcome.splits sum.splits json_body.splits if_splits)

lemma try_requests: "getAiResponse_try outcome s = Inr r \<Longrightarrow> requests (snd r) = []"
  by (auto simp: getAiResponse_try_def Let_def split_beta speak_requests
      split: fetch_outcome.splits sum.splits json_body.splits if_splits)

lemma try_inFlight: "getAiResponse_try outcome s = Inr r \<Longrightarrow> inFlight (fst r) = inFlight s"
  by (auto simp: getAiResponse_try_def Let_def split_beta speak_inFlight
      split: fetch_outcome.splits sum.splits json_body.splits if_splits)

lemma settled_memo:
  "lastProcessedTranscript (fst (getAiResponse_settled outcome s)) = lastProcessedTranscript s"
  by (simp add: getAiResponse_settled_def split_beta catch_memo try_memo split: sum.splits)

lemma settled_requests: "requests (snd (getAiResponse_settled outcome s)) = []"
  by (simp add: getAiResponse_settled_def split_beta catch_requests try_requests split: sum.splits)

lemma step_quiet_memo:
  "\<not> finalizes ev \<Longrightarrow> \<not> restarts ev \<Longrightarrow>
   lastProcessedTranscript (fst (step ev s)) = lastProcessedTranscript s"
  by (cases ev)
     (auto simp: useEffect_finalTranscript_def settled_memo handleStopListening_def
        handleSpeakInput_def speak_memo handleTextToSpeakChange_def utterance_onstart_def
        utterance_onend_def utterance_onerror_def Let_def)

lemma step_quiet_requests:
  "\<not> finalizes ev \<Longrightarrow> \<not> restarts ev \<Longrightarrow> requests (snd (step ev s)) = []"
  by (cases ev)
     (auto simp: useEffect_finalTranscript_def settled_requests handleStopListening_def
        handleSpeakInput_def speak_requests handleTextToSpeakChange_def utterance_onstart_def
        utterance_onend_def utterance_onerror_def Let_def)

lemma run_quiet:
  "\<forall>ev\<in>set evs. \<not> finalizes ev \<and> \<not> restarts ev \<Longrightarrow>
   lastProcessedTranscript (fst (run evs s)) = lastProcessedTranscript s \<and> requests (snd (run evs s)) = []"
proof (induction evs arbitrary: s)
  case Nil
  show ?case by simp
next
  case (Cons ev evs)
  have q: "\<not> finalizes ev" "\<not> restarts ev" using Cons.prems by simp_all
  have rest: "\<forall>x\<in>set evs. \<not> finalizes x \<and> \<not> restarts x" using Cons.prems by simp
  show ?case
    using Cons.IH [OF rest, of "fst (step ev s)"] step_quiet_memo [OF q, of s] step_quiet_requests [OF q, of s]
    by (simp add: split_beta requests_append)
qed

lemma trim_what_time: "js_trim ''what time is it'' = ''what time is it''"
  by (simp add: js_trim_def is_js_space_def)

lemma show_nat_500: "show_nat 500 = ''500''"
  by code_simp

lemma speak_has_synth: "has_synth (fst (speak v s)) = has_synth s"
  by (auto simp: has_synth_def speak_def Let_def split_beta split: option.splits)

lemma getAiResponse_has_synth: "has_synth (fst (getAiResponse text s)) = has_synth s"
  by (simp add: getAiResponse_def has_synth_def)

lemma catch_has_synth: "has_synth (fst (getAiResponse_catch x s)) = has_synth s"
  by (cases x) (simp_all add: getAiResponse_catch_def split_beta speak_has_synth, simp_all add: has_synth_def)

lemma try_has_synth:
  "getAiResponse_try outcome s = Inr r \<Longrightarrow> has_synth (fst r) = has_synth s"
  by (auto simp: getAiResponse_try_def Let_def split_beta speak_has_synth
      split: fetch_outcome.splits sum.splits json_body.splits if_splits)
     (simp_all add: has_synth_def)

lemma settled_has_synth: "has_synth (fst (getAiResponse_settled outcome s)) = has_synth s"
proof (cases "getAiResponse_try outcome s")
  case (Inl x)
  then show ?thesis
    using catch_has_synth [of x s] by (simp add: getAiResponse_settled_def split_beta has_synth_def)
next
  case (Inr r)
  then show ?thesis
    using try_has_synth [OF Inr] by (simp add: getAiResponse_settled_def split_beta has_synth_def)
qed

lemma handleStartListening_has_synth: "has_synth (fst (handleStartListening s)) = has_synth s"
proof (cases "isMicrophoneAvailable s")
  case True
  then show ?thesis
    by (auto simp: handleStartListening_def resetTranscript_def Let_def split_beta has_synth_def
        split: option.splits)
next
  case False
  then show ?thesis
    using speak_has_synth [of "JStr ''Cannot start listening, microphone is not available.''"
            "s\<lparr>transcript := [], finalTranscript := [], lastProcessedTranscript := None, aiResponseText := []\<rparr>"]
    by (simp add: handleStartListening_def resetTranscript_def Let_def has_synth_def)
qed

lemma handleStartListening_inFlight: "inFlight (fst (handleStartListening s)) = inFlight s"
  by (auto simp: handleStartListening_def resetTranscript_def Let_def split_beta speak_inFlight
      split: option.splits)

lemma handleReset_has_synth: "has_synth (fst (handleReset s)) = has_synth s"
  by (simp add: handleReset_def resetTranscript_def speak_has_synth) (simp add: has_synth_def)

lemma handleReset_inFlight: "inFlight (fst (handleReset s)) = inFlight s"
  by (simp add: handleReset_def resetTranscript_def speak_inFlight)

lemma utterance_has_synth:
  "has_synth (fst (utterance_onstart s)) = has_synth s"
  "has_synth (fst (utterance_onend s)) = has_synth s"
  "has_synth (fst (utterance_onerror d s)) = has_synth s"
  by (simp_all add: utterance_onstart_def utterance_onend_def utterance_onerror_def has_synth_def)

lemma step_has_synth: "has_synth (fst (step ev s)) = has_synth s"
proof (cases ev)
  case (HookUpdate l t f m)
  then show ?thesis
    by (simp add: useEffect_finalTranscript_def getAiResponse_has_synth Let_def) (simp add: has_synth_def)
next
  case (ChangeText v)
  then show ?thesis by (simp add: handleTextToSpeakChange_def has_synth_def)
qed (simp_all add: settled_has_synth handleStartListening_has_synth handleStopListening_def
       handleReset_has_synth handleSpeakInput_def speak_has_synth utterance_has_synth)

lemma step_inFlight: "\<not> settles ev \<Longrightarrow> inFlight s \<le> inFlight (fst (step ev s))"
  by (cases ev)
     (auto simp: useEffect_finalTranscript_def getAiResponse_def
        handleStartListening_inFlight handleStopListening_def handleReset_inFlight handleSpeakInput_def
        speak_inFlight handleTextToSpeakChange_def utterance_onstart_def utterance_onend_def
        utterance_onerror_def Let_def)

lemma run_pending:
  "\<forall>ev\<in>set evs. \<not> settles ev \<Longrightarrow>
   has_synth (fst (run evs s)) = has_synth s \<and> inFlight s \<le> inFlight (fst (run evs s))"
proof (induction evs arbitrary: s)
  case Nil
  show ?case by simp
next
  case (Cons ev evs)
  have ns: "\<not> settles ev" and rest: "\<forall>x\<in>set evs. \<not> settles x"
    using Cons.prems(1) by simp_all
  show ?case
    using Cons.IH [OF rest, of "fst (step ev s)"] step_inFlight [OF ns, of s] step_has_synth [of ev s]
    by (simp add: split_beta)
qed

lemma catch_spoken:
  "synth s = Some e \<Longrightarrow> \<exists>msg. spoken (snd (getAiResponse_catch x s)) = [msg]"
  by (cases x) (simp_all add: getAiResponse_catch_def split_beta speak_spoken)

lemma try_spoken:
  "getAiResponse_try outcome s = Inr r \<Longrightarrow> synth s = Some e \<Longrightarrow> \<exists>msg. spoken (snd r) = [msg]"
  by (auto simp: getAiResponse_try_def Let_def split_beta speak_spoken
      split: fetch_outcome.splits sum.splits json_body.splits if_splits)

lemma settled_spoken:
  "synth s = Some e \<Longrightarrow> \<exists>msg. spoken (snd (getAiResponse_settled outcome s)) = [msg]"
  by (simp add: getAiResponse_settled_def split_beta catch_spoken try_spoken split: sum.splits)

lemma settled_reply_spoken:
  "synth s = Some e \<Longrightarrow> truthy r \<Longrightarrow>
   spoken (snd (getAiResponse_settled (Response 200 stText (Inr (JsonObject [''response'' \<mapsto> r]))) s))
     = [js_to_string r]"
  by (simp add: getAiResponse_settled_def getAiResponse_try_def response_ok_def field_def
        split_beta speak_spoken)

subsection \<open>The displayed reply is never read\<close>

text \<open>
  No handler reads \<open>aiResponseText\<close>: changing the cell beforehand changes neither the effects
  of an event nor any other cell afterwards. What is proved below about the other cells
  and about the effects therefore holds for the earlier revision of \<open>App.tsx\<close> as well.
\<close>

lemma speak_ignores_reply:
  "speak v (s\<lparr>aiResponseText := a\<rparr>) = (fst (speak v s)\<lparr>aiResponseText := a\<rparr>, snd (speak v s))"
  by (cases "synth s") (simp_all add: speak_def Let_def split_beta)

lemma catch_ignores_reply:
  "getAiResponse_catch x (s\<lparr>aiResponseText := a\<rparr>) = getAiResponse_catch x s"
  by (cases x) (simp_all add: getAiResponse_catch_def)

lemma try_ignores_reply:
  "getAiResponse_try outcome (s\<lparr>aiResponseText := a\<rparr>) = getAiResponse_try outcome s"
  by (simp add: getAiResponse_try_def Let_def
      split: fetch_outcome.splits sum.splits json_body.splits)

lemma settled_ignores_reply:
  "getAiResponse_settled outcome (s\<lparr>aiResponseText := a\<rparr>) = getAiResponse_settled outcome s"
  by (simp add: getAiResponse_settled_def try_ignores_reply catch_ignores_reply split: sum.splits)


lemma handleStartListening_ignores_reply:
  "handleStartListening (s\<lparr>aiResponseText := a\<rparr>) = handleStartListening s"
  by (simp add: handleStartListening_def resetTranscript_def)

lemma handleReset_ignores_reply: "handleReset (s\<lparr>aiResponseText := a\<rparr>) = handleReset s"
  by (simp add: handleReset_def resetTranscript_def)

lemma getAiResponse_ignores_reply:
  "getAiResponse text (s\<lparr>aiResponseText := a\<rparr>) =
     (fst (getAiResponse text s)\<lparr>aiResponseText := a\<rparr>, snd (getAiResponse text s))"
  by (simp add: getAiResponse_def)

lemma step_ignores_reply:
  "snd (step ev (s\<lparr>aiResponseText := a\<rparr>)) = snd (step ev s)
   \<and> (fst (step ev (s\<lparr>aiResponseText := a\<rparr>)))\<lparr>aiResponseText := b\<rparr>
       = (fst (step ev s))\<lparr>aiResponseText := b\<rparr>"
proof (cases ev)
  case (HookUpdate l t f m)
  then show ?thesis
    by (simp add: useEffect_finalTranscript_def getAiResponse_def Let_def)
next
  case (FetchSettled outcome)
  then show ?thesis by (simp add: settled_ignores_reply)
next
  case ClickSpeak
  then show ?thesis by (simp add: handleSpeakInput_def speak_ignores_reply)
qed (simp_all add: handleStartListening_ignores_reply handleReset_ignores_reply
       handleStopListening_def handleTextToSpeakChange_def utterance_onstart_def
       utterance_onend_def utterance_onerror_def)

subsection \<open>Duplicate final transcripts\<close>

text \<open>
  C1. When \<open>getAiResponse\<close> is called twice with the same text and no event in between
  starts a listening session, resets, or delivers another final transcript, then at most
  one request goes out: a call that sends a request stores its text in
  \<open>lastProcessedTranscript\<close>, and the second call returns the state as it found it and
  sends nothing (it only writes a console line). The same holds when the second call comes
  from the hook delivering that final transcript again: the hook's values are taken over
  and nothing else changes.
\<close>

theorem duplicate_final_transcript_dropped:
  assumes "\<forall>ev\<in>set evs. \<not> finalizes ev \<and> \<not> restarts ev"
  shows "let s1 = fst (getAiResponse text s);
             fx1 = snd (getAiResponse text s);
             s2 = fst (run evs s1);
             fx2 = snd (run evs s1);
             fx3 = snd (getAiResponse text s2);
             again = step (HookUpdate False t text m) s2
         in (requests fx1 \<noteq> [] \<longrightarrow> lastProcessedTranscript s1 = Some text)
            \<and> fst (getAiResponse text s2) = s2
            \<and> requests fx3 = []
            \<and> length (requests (fx1 @ fx2 @ fx3)) \<le> 1
            \<and> fst again = s2\<lparr>listening := False, transcript := t, finalTranscript := text,
                                isMicrophoneAvailable := m\<rparr>
            \<and> requests (snd again) = []"
proof -
  define s1 where "s1 = fst (getAiResponse text s)"
  define s2 where "s2 = fst (run evs s1)"
  have quiet: "lastProcessedTranscript s2 = lastProcessedTranscript s1" "requests (snd (run evs s1)) = []"
    using run_quiet [OF assms, of s1] by (simp_all add: s2_def)
  have first: "js_trim text = [] \<or> lastProcessedTranscript s1 = Some text"
    by (auto simp: s1_def getAiResponse_def)
  have stored: "requests (snd (getAiResponse text s)) \<noteq> [] \<longrightarrow> lastProcessedTranscript s1 = Some text"
    by (auto simp: s1_def getAiResponse_def)
  have one: "length (requests (snd (getAiResponse text s))) \<le> 1"
    by (auto simp: getAiResponse_def)
  have dropped: "getAiResponse text s' =
      (s', if text = [] \<or> js_trim text = [] then []
           else [Console LogLevel (''Skipping duplicate final transcript: '' @ text)])"
    if "lastProcessedTranscript s' = lastProcessedTranscript s2" for s'
    using first quiet(1) that by (auto simp: getAiResponse_def)
  have again: "fst (step (HookUpdate False t text m) s2) =
        s2\<lparr>listening := False, transcript := t, finalTranscript := text, isMicrophoneAvailable := m\<rparr>"
      "requests (snd (step (HookUpdate False t text m) s2)) = []"
    using dropped [of "s2\<lparr>listening := False, transcript := t, finalTranscript := text, isMicrophoneAvailable := m\<rparr>"]
    by (simp_all add: useEffect_finalTranscript_def Let_def)
  show ?thesis
    using stored one dropped [of s2] quiet(2) again
    by (simp add: Let_def requests_append s1_def [symmetric] s2_def [symmetric] del: step.simps)
qed

theorem duplicate_final_transcript_dropped_witness:
  "requests (snd (getAiResponse ''hello'' quiet_app)) = [[(''transcript'', JStr ''hello'')]]
   \<and> lastProcessedTranscript (fst (getAiResponse ''hello'' quiet_app)) = Some ''hello''
   \<and> requests (snd (getAiResponse ''hello''
        (fst (run [FetchSettled (Response 200 ''OK'' (Inr (JsonObject [''response'' \<mapsto> JStr ''hi'']))), UtteranceStart]
               (fst (getAiResponse ''hello'' quiet_app)))))) = []"
proof -
  have q: "\<forall>ev\<in>set [FetchSettled (Response 200 ''OK'' (Inr (JsonObject [''response'' \<mapsto> JStr ''hi'']))), UtteranceStart].
      \<not> finalizes ev \<and> \<not> restarts ev"
    by simp
  have t: "js_trim ''hello'' = ''hello''"
    by (simp add: js_trim_def is_js_space_def)
  have g: "getAiResponse ''hello'' quiet_app =
     (quiet_app\<lparr>lastProcessedTranscript := Some ''hello'', isAiResponding := True, inFlight := 1\<rparr>,
      [Console LogLevel ''Sending to AI function: hello'',
       Fetch ''/.netlify/functions/getAiResponse'' ''POST'' [(''Content-Type'', ''application/json'')] [(''transcript'', JStr ''hello'')]])"
    by (simp add: getAiResponse_def t quiet_app_def initial_app_def)
  show ?thesis
    using duplicate_final_transcript_dropped [OF q, of "''hello''" quiet_app "''hello''" True]
    by (simp add: Let_def g del: step.simps)
qed

subsection \<open>One utterance at a time\<close>

text \<open>
  C2. When \<open>speak\<close> is called with a non-empty text while the engine is speaking, it
  first cancels (the queue is emptied, nothing is kept for later) and then hands the new
  utterance to the engine: afterwards the engine's queue holds that utterance alone.
\<close>

theorem speak_while_speaking_replaces:
  assumes "synth s = Some e" and "speaking e" and "text \<noteq> []"
  shows "speak (JStr text) s =
           (s\<lparr>synth := Some \<lparr>speaking = False, queue = [text]\<rparr>\<rparr>,
            [Console LogLevel ''Already speaking, cancelling previous utterance.'', SynthCancel,
             Console LogLevel (''Attempting to speak: '' @ text), SynthSpeak text])"
  using assms by (simp add: speak_def synth_cancel_def synth_speak_def)

theorem speak_while_speaking_replaces_witness:
  "speak (JStr ''new'') (quiet_app\<lparr>synth := Some \<lparr>speaking = True, queue = [''old'', ''older'']\<rparr>\<rparr>) =
     (quiet_app\<lparr>synth := Some \<lparr>speaking = False, queue = [''new'']\<rparr>\<rparr>,
      [Console LogLevel ''Already speaking, cancelling previous utterance.'', SynthCancel,
       Console LogLevel ''Attempting to speak: new'', SynthSpeak ''new''])"
  using speak_while_speaking_replaces
          [of "quiet_app\<lparr>synth := Some \<lparr>speaking = True, queue = [''old'', ''older'']\<rparr>\<rparr>"
              "\<lparr>speaking = True, queue = [''old'', ''older'']\<rparr>" "''new''"]
  by simp

subsection \<open>A turn that succeeds, a turn that fails\<close>

text \<open>
  C3. A listening session ends with the final transcript \<open>what time is it\<close>, not processed
  before; the request body is \<open>{transcript: what time is it}\<close>. When the backend answers 200
  with \<open>{response: It is 3:45 PM.}\<close>, the component is no longer waiting
  (\<open>isAiResponding\<close> is false, nothing in flight that this turn added), \<open>aiResponseText\<close>
  is the reply, and the engine was handed exactly one utterance, the reply. The engine is
  assumed to exist: without it \<open>speak\<close> only warns.
\<close>

theorem successful_turn:
  assumes "synth s = Some e" and "listening s"
    and "lastProcessedTranscript s \<noteq> Some ''what time is it''"
  shows "let (s1, fx1) = step (HookUpdate False t ''what time is it'' m) s;
             (s2, fx2) = step (FetchSettled (Response 200 stText
                            (Inr (JsonObject [''response'' \<mapsto> JStr ''It is 3:45 PM.''])))) s1
         in requests fx1 = [[(''transcript'', JStr ''what time is it'')]]
            \<and> isAiResponding s1
            \<and> \<not> listening s2 \<and> \<not> isAiResponding s2 \<and> inFlight s2 = inFlight s
            \<and> aiResponseText s2 = ''It is 3:45 PM.''
            \<and> spoken (fx1 @ fx2) = [''It is 3:45 PM.'']
            \<and> requests fx2 = []"
  using assms
  by (simp add: useEffect_finalTranscript_def getAiResponse_def trim_what_time
        getAiResponse_settled_def getAiResponse_try_def response_ok_def field_def
        speak_def Let_def split_beta)

theorem successful_turn_witness:
  "run [HookUpdate False ''what time is it'' ''what time is it'' True,
        FetchSettled (Response 200 ''OK'' (Inr (JsonObject [''response'' \<mapsto> JStr ''It is 3:45 PM.''])))]
       listening_app =
     (quiet_app\<lparr>transcript := ''what time is it'', finalTranscript := ''what time is it'',
        lastProcessedTranscript := Some ''what time is it'', aiResponseText := ''It is 3:45 PM.'',
        synth := Some \<lparr>speaking = False, queue = [''It is 3:45 PM.'']\<rparr>\<rparr>,
      [Console LogLevel ''Sending to AI function: what time is it'',
       Fetch ''/.netlify/functions/getAiResponse'' ''POST'' [(''Content-Type'', ''application/json'')]
         [(''transcript'', JStr ''what time is it'')],
       Console LogLevel ''AI Response received: It is 3:45 PM.'',
       Console LogLevel ''Attempting to speak: It is 3:45 PM.'',
       SynthSpeak ''It is 3:45 PM.''])"
proof -
  have a: "synth listening_app = Some \<lparr>speaking = False, queue = []\<rparr>" "listening listening_app"
    "lastProcessedTranscript listening_app \<noteq> Some ''what time is it''"
    by (simp_all add: listening_app_def quiet_app_def initial_app_def)
  show ?thesis
    using successful_turn [OF a, of "''what time is it''" True "''OK''"]
    by (simp add: listening_app_def quiet_app_def initial_app_def useEffect_finalTranscript_def
          getAiResponse_def trim_what_time getAiResponse_settled_def getAiResponse_try_def
          response_ok_def field_def speak_def synth_speak_def Let_def split_beta)
qed

text \<open>
  C4. The same turn with any accepted text, answered by status 500 and the body
  \<open>{error: model unavailable}\<close>: exactly one utterance is spoken, the fallback message, which
  ends in \<open>model unavailable\<close>; the component is no longer waiting; only the one request of
  the turn was sent (no retry); and \<open>lastProcessedTranscript\<close> still holds the text.
\<close>

theorem server_error_turn:
  assumes "synth s = Some e" and "listening s" and "js_trim text \<noteq> []"
    and "lastProcessedTranscript s \<noteq> Some text"
  shows "let (s1, fx1) = step (HookUpdate False t text m) s;
             (s2, fx2) = step (FetchSettled (Response 500 stText
                            (Inr (JsonObject [''error'' \<mapsto> JStr ''model unavailable''])))) s1
         in requests (fx1 @ fx2) = [[(''transcript'', JStr text)]]
            \<and> spoken (fx1 @ fx2) =
                [''Sorry, I encountered an error: Function Error (500): '' @ ''model unavailable'']
            \<and> \<not> listening s2 \<and> \<not> isAiResponding s2 \<and> inFlight s2 = inFlight s
            \<and> lastProcessedTranscript s2 = Some text"
  using assms
  by (auto simp add: useEffect_finalTranscript_def getAiResponse_def show_nat_500
        getAiResponse_settled_def getAiResponse_try_def getAiResponse_catch_def response_ok_def field_def
        js_or_def speak_def Let_def split_beta)

theorem server_error_turn_witness:
  "spoken (snd (run [HookUpdate False ''what time is it'' ''what time is it'' True,
        FetchSettled (Response 500 ''Internal Server Error''
          (Inr (JsonObject [''error'' \<mapsto> JStr ''model unavailable''])))] listening_app))
     = [''Sorry, I encountered an error: Function Error (500): model unavailable'']
   \<and> lastProcessedTranscript (fst (run [HookUpdate False ''what time is it'' ''what time is it'' True,
        FetchSettled (Response 500 ''Internal Server Error''
          (Inr (JsonObject [''error'' \<mapsto> JStr ''model unavailable''])))] listening_app))
     = Some ''what time is it''"
proof -
  have a: "synth listening_app = Some \<lparr>speaking = False, queue = []\<rparr>" "listening listening_app"
    "js_trim ''what time is it'' \<noteq> []"
    "lastProcessedTranscript listening_app \<noteq> Some ''what time is it''"
    by (simp_all add: listening_app_def quiet_app_def initial_app_def trim_what_time)
  show ?thesis
    using server_error_turn [OF a, of "''what time is it''" True "''Internal Server Error''"]
    by (simp add: split_beta Let_def spoken_append)
qed

subsection \<open>Empty and blank text\<close>

text \<open>
  C5 as stated fails for blank text: \<open>speak\<close> tests \<open>!text\<close>, which only the empty string
  satisfies. A single space is trimmed to nothing, yet it is handed to the engine and
  the state changes.
\<close>

theorem speak_whitespace_counterexample:
  "js_trim '' '' = [] \<and> spoken (snd (speak (JStr '' '') quiet_app)) = ['' '']
   \<and> fst (speak (JStr '' '') quiet_app) \<noteq> quiet_app"
  by (simp add: js_trim_def is_js_space_def speak_def quiet_app_def initial_app_def synth_speak_def Let_def)

text \<open>
  C5, amended. \<open>speak\<close> with the empty text changes nothing and only writes the warning.
  Any other text, blank or not, is handed to an existing engine like every utterance.
\<close>

theorem speak_empty_is_noop:
  "speak (JStr []) s = (s, [Console WarnLevel ''Speech synthesis not available or text is empty.''])
   \<and> (text \<noteq> [] \<and> synth s = Some e \<longrightarrow>
        spoken (snd (speak (JStr text) s)) = [text]
        \<and> synth (fst (speak (JStr text) s)) =
            Some \<lparr>speaking = False, queue = (if speaking e then [] else queue e) @ [text]\<rparr>)"
  by (cases "synth s") (auto simp: speak_def synth_cancel_def synth_speak_def)

theorem speak_empty_is_noop_witness:
  "speak (JStr []) quiet_app = (quiet_app, [Console WarnLevel ''Speech synthesis not available or text is empty.''])
   \<and> js_trim ''   '' = []
   \<and> spoken (snd (speak (JStr ''   '') quiet_app)) = [''   '']"
  using speak_empty_is_noop [of quiet_app "''   ''" "\<lparr>speaking = False, queue = []\<rparr>"]
  by (simp add: quiet_app_def initial_app_def js_trim_def is_js_space_def Let_def)

subsection \<open>Starting without a microphone\<close>

text \<open>
  C6 as stated fails in its last part: \<open>handleStartListening\<close> clears the transcript, the
  ref and the displayed reply before it looks at the microphone flag, so the rejected
  action does modify them.
\<close>

theorem rejected_start_clears_state_counterexample:
  "\<not> isMicrophoneAvailable muted_app
   \<and> lastProcessedTranscript muted_app = Some ''hi''
   \<and> lastProcessedTranscript (fst (handleStartListening muted_app)) = None
   \<and> aiResponseText muted_app = ''hello''
   \<and> aiResponseText (fst (handleStartListening muted_app)) = []
   \<and> transcript muted_app = ''hi''
   \<and> transcript (fst (handleStartListening muted_app)) = []"
  by (simp add: muted_app_def quiet_app_def initial_app_def handleStartListening_def
        resetTranscript_def speak_def Let_def)

text \<open>
  C6, amended. With the microphone unavailable, \<open>handleStartListening\<close> never calls
  \<open>startListening\<close> and sends no request; the listening flag, the awaiting-reply flag
  and the pending requests stay as they were; the transcript, the ref and the displayed
  reply are cleared; and an existing engine is handed the fixed message.
\<close>

theorem rejected_start:
  assumes "\<not> isMicrophoneAvailable s"
  shows "let (s1, fx) = handleStartListening s
         in recognition_starts fx = [] \<and> requests fx = []
            \<and> listening s1 = listening s \<and> isAiResponding s1 = isAiResponding s
            \<and> inFlight s1 = inFlight s
            \<and> lastProcessedTranscript s1 = None \<and> aiResponseText s1 = []
            \<and> transcript s1 = [] \<and> finalTranscript s1 = []
            \<and> (synth s \<noteq> None \<longrightarrow>
                 spoken fx = [''Cannot start listening, microphone is not available.''])"
  using assms
  by (auto simp: handleStartListening_def resetTranscript_def speak_def Let_def split_beta
      split: option.splits)

theorem rejected_start_witness:
  "recognition_starts (snd (handleStartListening muted_app)) = []
   \<and> listening (fst (handleStartListening muted_app)) = listening muted_app
   \<and> spoken (snd (handleStartListening muted_app)) = [''Cannot start listening, microphone is not available.'']"
proof -
  have m: "\<not> isMicrophoneAvailable muted_app" "synth muted_app \<noteq> None"
    by (simp_all add: muted_app_def quiet_app_def initial_app_def)
  show ?thesis
    using rejected_start [OF m(1)] m(2) by (simp add: split_beta Let_def)
qed

subsection \<open>A reply that arrives late\<close>

text \<open>
  C7. \<open>handleStartListening\<close> with a microphone cancels the utterance being spoken (if any)
  and starts recognition, and leaves the pending requests alone. Whatever happens next,
  short of the request settling, the settling still speaks exactly one utterance, and
  for a 200 answer with a truthy \<open>response\<close> that utterance is the reply.
\<close>

theorem late_reply_is_still_spoken:
  assumes "synth s = Some e" and "isMicrophoneAvailable s" and "0 < inFlight s"
    and "\<forall>ev\<in>set evs. \<not> settles ev"
  shows "let (s1, fx1) = handleStartListening s; s2 = fst (run evs s1)
         in fx1 = (if speaking e then [SynthCancel] else []) @ [RecognitionStart False ''en-US'']
            \<and> synth s1 = Some (if speaking e then \<lparr>speaking = False, queue = []\<rparr> else e)
            \<and> inFlight s1 = inFlight s
            \<and> (\<exists>msg. spoken (snd (step (FetchSettled outcome) s2)) = [msg])
            \<and> (truthy r \<longrightarrow>
                 spoken (snd (step (FetchSettled
                    (Response 200 stText (Inr (JsonObject [''response'' \<mapsto> r])))) s2))
                 = [js_to_string r])"
proof -
  define s1 where "s1 = fst (handleStartListening s)"
  define s2 where "s2 = fst (run evs s1)"
  have start: "handleStartListening s =
      (s\<lparr>transcript := [], finalTranscript := [], lastProcessedTranscript := None,
         aiResponseText := [],
         synth := Some (if speaking e then \<lparr>speaking = False, queue = []\<rparr> else e)\<rparr>,
       (if speaking e then [SynthCancel] else []) @ [RecognitionStart False ''en-US''])"
    using assms(1,2)
    by (simp add: handleStartListening_def resetTranscript_def synth_cancel_def Let_def)
  have s1: "has_synth s1" "inFlight s1 = inFlight s"
    by (simp_all add: s1_def start has_synth_def)
  have s2: "has_synth s2" "0 < inFlight s2"
    using run_pending [OF assms(4), of s1] s1 assms(3) by (simp_all add: s2_def)
  obtain e2 where e2: "synth s2 = Some e2"
    using s2(1) by (auto simp: has_synth_def)
  have any: "\<exists>msg. spoken (snd (step (FetchSettled outcome) s2)) = [msg]"
    using s2(2) settled_spoken [OF e2] by simp
  have ok: "truthy r \<longrightarrow>
      spoken (snd (step (FetchSettled (Response 200 stText (Inr (JsonObject [''response'' \<mapsto> r])))) s2))
      = [js_to_string r]"
    using s2(2) settled_reply_spoken [OF e2] by simp
  show ?thesis
    using any ok s1(2) unfolding s2_def s1_def
    by (simp add: start)
qed

theorem late_reply_is_still_spoken_witness:
  "synth (fst (handleStartListening busy_app)) = Some \<lparr>speaking = False, queue = []\<rparr>
   \<and> snd (handleStartListening busy_app) = [SynthCancel, RecognitionStart False ''en-US'']
   \<and> spoken (snd (step (FetchSettled (Response 200 ''OK'' (Inr (JsonObject [''response'' \<mapsto> JStr ''late reply'']))))
                (fst (run [HookUpdate True [] [] True] (fst (handleStartListening busy_app))))))
       = [''late reply'']"
proof -
  have b: "synth busy_app = Some \<lparr>speaking = True, queue = [''old reply'']\<rparr>"
    "isMicrophoneAvailable busy_app" "0 < inFlight busy_app"
    by (simp_all add: busy_app_def quiet_app_def initial_app_def)
  have q: "\<forall>ev\<in>set [HookUpdate True [] [] True]. \<not> settles ev"
    by simp
  show ?thesis
    using late_reply_is_still_spoken [OF b q, of "Response 200 ''OK'' (Inr (JsonObject [''response'' \<mapsto> JStr ''late reply'']))" "JStr ''late reply''" "''OK''"]
    by (simp add: split_beta Let_def)
qed

subsection \<open>Reset\<close>

text \<open>
  C8. \<open>handleReset\<close> in any state clears the ref and the displayed reply, and a second
  call right after the first leaves every cell of the component as the first left it.
  (The speech engine is not part of the component: the second call speaks the
  confirmation again.)
\<close>

theorem reset_clears_and_is_idempotent:
  "let s1 = fst (handleReset s); s2 = fst (handleReset s1)
   in lastProcessedTranscript s1 = None \<and> aiResponseText s1 = []
      \<and> s2\<lparr>synth := synth s1\<rparr> = s1"
  by (cases "synth s") (auto simp: handleReset_def resetTranscript_def speak_def Let_def split_beta)

theorem reset_clears_and_is_idempotent_witness:
  "lastProcessedTranscript (fst (handleReset muted_app)) = None
   \<and> aiResponseText (fst (handleReset muted_app)) = []
   \<and> (fst (handleReset (fst (handleReset muted_app))))\<lparr>synth := synth (fst (handleReset muted_app))\<rparr>
       = fst (handleReset muted_app)"
  using reset_clears_and_is_idempotent [of muted_app] by (simp add: Let_def)

subsection \<open>The backend's reply\<close>

text \<open>
  C9 as stated fails for a completion that is not empty but blank: its trimmed text is
  empty, and the handler answers 500, not 200.
\<close>

theorem whitespace_completion_counterexample:
  "'' '' \<noteq> [] \<and> statusCode (handler True post_event (Completion [Some '' ''])) = 500
   \<and> handler True post_event (Completion [Some '' '']) =
     \<lparr>statusCode = 500, body = [(''error'', JStr ''Received an empty response from OpenAI.'')],
      headers = []\<rparr>"
  by (simp add: handler_def post_event_def read_transcript_def field_def trim_what_time
        first_choice_text_def error_response_def js_trim_def is_js_space_def)

text \<open>
  C9, amended. For a POST with a valid transcript and a configured key, when the
  completion call returns: no first choice, a first choice without text, or one whose
  text is empty after trimming gives status 500 with an \<open>error\<close> string; a first choice
  whose trimmed text is not empty gives status 200 with that trimmed text as \<open>response\<close>.
\<close>

theorem completion_relayed_or_error:
  assumes "httpMethod ev = ''POST''" and "read_transcript (event_body ev) = Inr t"
  shows "(choices = [] \<or> (\<exists>cs. choices = None # cs)
            \<or> (\<exists>c cs. choices = Some c # cs \<and> js_trim c = [])
            \<longrightarrow> handler True ev (Completion choices) =
                  \<lparr>statusCode = 500,
                   body = [(''error'', JStr ''Received an empty response from OpenAI.'')],
                   headers = []\<rparr>)
         \<and> (choices = Some c # cs \<and> js_trim c \<noteq> []
            \<longrightarrow> handler True ev (Completion choices) =
                  \<lparr>statusCode = 200, body = [(''response'', JStr (js_trim c))],
                   headers = [(''Content-Type'', ''application/json'')]\<rparr>)"
  using assms
  by (cases choices)
     (auto simp: handler_def first_choice_text_def error_response_def split: option.splits)

theorem completion_relayed_or_error_witness:
  "handler True post_event (Completion []) =
     \<lparr>statusCode = 500, body = [(''error'', JStr ''Received an empty response from OpenAI.'')], headers = []\<rparr>
   \<and> handler True post_event (Completion [None]) =
     \<lparr>statusCode = 500, body = [(''error'', JStr ''Received an empty response from OpenAI.'')], headers = []\<rparr>
   \<and> handler True post_event (Completion [Some '' It is 3:45 PM. '', Some ''other'']) =
     \<lparr>statusCode = 200, body = [(''response'', JStr ''It is 3:45 PM.'')],
      headers = [(''Content-Type'', ''application/json'')]\<rparr>"
proof -
  have p: "httpMethod post_event = ''POST''"
    "read_transcript (event_body post_event) = Inr ''what time is it''"
    by (simp_all add: post_event_def read_transcript_def field_def trim_what_time)
  have t: "js_trim '' It is 3:45 PM. '' = ''It is 3:45 PM.''"
    by (simp add: js_trim_def is_js_space_def)
  show ?thesis
    using completion_relayed_or_error [OF p, of "[]"]
          completion_relayed_or_error [OF p, of "[None]"]
          completion_relayed_or_error [OF p, of "[Some '' It is 3:45 PM. '', Some ''other'']" "'' It is 3:45 PM. ''" "[Some ''other'']"]
    by (simp add: t)
qed

subsection \<open>The duplicate test is string equality\<close>



end
